theory Spec2Isabelle
  imports Complex_Main "HOL-Library.Word"
begin

unbundle bit_operations_syntax

section \<open>Optical illusions in SVG: a model of main.cpp\<close>

text \<open>
  The program writes four SVG documents. Each drawing routine receives an open stream
  \<^verbatim>\<open>FILE* output\<close> and does nothing but \<^verbatim>\<open>fprintf\<close> to it, so a drawing
  routine is modelled by the sequence of \<^verbatim>\<open>fprintf\<close> calls it performs, each call
  kept as its format string and its arguments; the bytes that a call writes are a function
  of the two. The routines that open and close files pass a file system state along.

  \<^verbatim>\<open>size_t\<close> is taken as a 64-bit unsigned integer, so its arithmetic wraps.
\<close>

type_synonym size_t = "64 word"

subsection \<open>The type \<^verbatim>\<open>float\<close>\<close>

text \<open>
  A \<^verbatim>\<open>float\<close> is modelled as a real number or one of the three special values of IEEE
  arithmetic. The special cases of the operations (division by zero, operations on
  infinities and NaN) follow IEEE 754; on finite values the operations are exact, and
  \<^verbatim>\<open>cosf\<close> and \<^verbatim>\<open>sinf\<close> are the real cosine and sine: rounding to 24 bits,
  overflow of a finite result and the sign of zero are not modelled.
\<close>

datatype cfloat = Finite real | PlusInf | MinusInf | NaN

text \<open>\<^verbatim>\<open>const float PI = 3.14159265358979323846f;\<close> The literal denotes the
  binary32 number nearest to it, which is \<open>13176795 / 2 ^ 22\<close>.\<close>

definition PI :: cfloat where
  "PI = Finite (13176795 / 4194304)"

text \<open>The infinity with the sign of a real number, and NaN for zero.\<close>

definition inf_of_sign :: "real \<Rightarrow> cfloat" where
  "inf_of_sign x = (if 0 < x then PlusInf else if x < 0 then MinusInf else NaN)"

fun fneg :: "cfloat \<Rightarrow> cfloat" where
  "fneg (Finite x) = Finite (- x)"
| "fneg PlusInf = MinusInf"
| "fneg MinusInf = PlusInf"
| "fneg NaN = NaN"

fun fadd :: "cfloat \<Rightarrow> cfloat \<Rightarrow> cfloat" where
  "fadd (Finite x) (Finite y) = Finite (x + y)"
| "fadd NaN b = NaN"
| "fadd a NaN = NaN"
| "fadd PlusInf MinusInf = NaN"
| "fadd MinusInf PlusInf = NaN"
| "fadd PlusInf b = PlusInf"
| "fadd a PlusInf = PlusInf"
| "fadd MinusInf b = MinusInf"
| "fadd a MinusInf = MinusInf"

definition fsub :: "cfloat \<Rightarrow> cfloat \<Rightarrow> cfloat" where
  "fsub a b = fadd a (fneg b)"

fun fmul :: "cfloat \<Rightarrow> cfloat \<Rightarrow> cfloat" where
  "fmul (Finite x) (Finite y) = Finite (x * y)"
| "fmul NaN b = NaN"
| "fmul a NaN = NaN"
| "fmul PlusInf (Finite y) = inf_of_sign y"
| "fmul MinusInf (Finite y) = inf_of_sign (- y)"
| "fmul (Finite x) PlusInf = inf_of_sign x"
| "fmul (Finite x) MinusInf = inf_of_sign (- x)"
| "fmul PlusInf PlusInf = PlusInf"
| "fmul MinusInf MinusInf = PlusInf"
| "fmul PlusInf MinusInf = MinusInf"
| "fmul MinusInf PlusInf = MinusInf"

text \<open>Division: a finite nonzero number divided by zero is an infinity, \<open>0 / 0\<close> is NaN;
  nothing traps.\<close>

fun fdiv :: "cfloat \<Rightarrow> cfloat \<Rightarrow> cfloat" where
  "fdiv (Finite x) (Finite y) = (if y = 0 then inf_of_sign x else Finite (x / y))"
| "fdiv NaN b = NaN"
| "fdiv a NaN = NaN"
| "fdiv (Finite x) PlusInf = Finite 0"
| "fdiv (Finite x) MinusInf = Finite 0"
| "fdiv PlusInf (Finite y) = (if y < 0 then MinusInf else PlusInf)"
| "fdiv MinusInf (Finite y) = (if y < 0 then PlusInf else MinusInf)"
| "fdiv PlusInf b = NaN"
| "fdiv MinusInf b = NaN"

fun cosf :: "cfloat \<Rightarrow> cfloat" where
  "cosf (Finite x) = Finite (cos x)"
| "cosf a = NaN"

fun sinf :: "cfloat \<Rightarrow> cfloat" where
  "sinf (Finite x) = Finite (sin x)"
| "sinf a = NaN"

fun fceil :: "cfloat \<Rightarrow> cfloat" where
  "fceil (Finite x) = Finite (of_int \<lceil>x\<rceil>)"
| "fceil a = a"

text \<open>The conversion of a \<^verbatim>\<open>size_t\<close> to \<^verbatim>\<open>float\<close>.\<close>

definition float_of_size :: "size_t \<Rightarrow> cfloat" where
  "float_of_size n = Finite (real (unat n))"

text \<open>The cast \<^verbatim>\<open>(size_t)x\<close> of a floating-point value truncates towards zero. Its
  behaviour is undefined when the truncated value is not a \<^verbatim>\<open>size_t\<close> (NaN, an infinity,
  \<open>x \<le> -1\<close> or \<open>x \<ge> 2 ^ 64\<close>): that is the result \<open>None\<close>.\<close>

fun size_of_float :: "cfloat \<Rightarrow> size_t option" where
  "size_of_float (Finite x) =
     (if - 1 < x \<and> x < 2 ^ 64 then Some (of_nat (nat \<lfloor>x\<rfloor>)) else None)"
| "size_of_float a = None"

subsection \<open>Output\<close>

text \<open>One argument of a \<^verbatim>\<open>fprintf\<close> call: a \<^verbatim>\<open>size_t\<close> for \<^verbatim>\<open>%lu\<close>, a
  \<^verbatim>\<open>float\<close> for \<^verbatim>\<open>%0.1f\<close>, a string for \<^verbatim>\<open>%s\<close>.\<close>

datatype arg = LU size_t | FL cfloat | S string

datatype printf_call = Fprintf (fmt: string) (args: "arg list")

subsection \<open>Helpers: the file system, OpenSVG and CloseSVG\<close>

text \<open>
  The state of the file system: the contents of each file that exists (the
  \<^verbatim>\<open>fprintf\<close> calls written to it, in order), whether \<^verbatim>\<open>fopen\<close> for writing
  succeeds on a name, and the streams that were passed to \<^verbatim>\<open>fclose\<close>, in order.
  A \<^verbatim>\<open>FILE*\<close> is \<open>None\<close> for \<^verbatim>\<open>nullptr\<close> and otherwise the name of the file
  the stream writes to.
\<close>

record sys =
  files :: "string \<Rightarrow> printf_call list option"
  can_open :: "string \<Rightarrow> bool"
  fclosed :: "string list"

type_synonym FILE_ptr = "string option"

text \<open>\<^verbatim>\<open>fopen(name, "wt")\<close>: on success the file is created or truncated.\<close>

definition fopen_wt :: "sys \<Rightarrow> string \<Rightarrow> FILE_ptr \<times> sys" where
  "fopen_wt s name =
     (if can_open s name then (Some name, s\<lparr>files := (files s)(name \<mapsto> [])\<rparr>)
      else (None, s))"

text \<open>A sequence of \<^verbatim>\<open>fprintf\<close> calls on an open stream appends to its file.\<close>

definition fprintfs :: "string \<Rightarrow> printf_call list \<Rightarrow> sys \<Rightarrow> sys" where
  "fprintfs f ps s =
     s\<lparr>files := (files s)(f \<mapsto> (case files s f of None \<Rightarrow> [] | Some c \<Rightarrow> c) @ ps)\<rparr>"

definition fclose :: "string \<Rightarrow> sys \<Rightarrow> sys" where
  "fclose f s = s\<lparr>fclosed := fclosed s @ [f]\<rparr>"

text \<open>\<^verbatim>\<open>bool OpenSVG(FILE*& output, const std::string& fname, size_t w, size_t h)\<close>
  returns its result, the new value of \<^verbatim>\<open>output\<close> and the new state.\<close>

definition OpenSVG :: "sys \<Rightarrow> string \<Rightarrow> size_t \<Rightarrow> size_t \<Rightarrow> bool \<times> FILE_ptr \<times> sys" where
  \<open>OpenSVG s0 fname w h =
     (let s = fname @ ''.svg'';
          (output, s1) = fopen_wt s0 s
      in case output of
           Some f \<Rightarrow>
             (True, output,
              fprintfs f
                [Fprintf ''<?xml version="1.0" encoding="UTF-8"?>\<newline>'' [],
                 Fprintf ''<svg width="%lu" height="%lu" '' [LU w, LU w],
                 Fprintf ''viewBox="0 0 %lu %lu" '' [LU w, LU w],
                 Fprintf ''xmlns="http://www.w3.org/2000/svg">\<newline>'' [],
                 Fprintf ''<!-- Created by Ian Parberry -->\<newline>'' []] s1)
         | None \<Rightarrow> (False, output, s1))\<close>

text \<open>\<^verbatim>\<open>void CloseSVG(FILE*& output)\<close> returns the new value of \<^verbatim>\<open>output\<close> and the
  new state.\<close>

definition CloseSVG :: "sys \<Rightarrow> FILE_ptr \<Rightarrow> FILE_ptr \<times> sys" where
  \<open>CloseSVG s output =
     (case output of
        Some f \<Rightarrow> (None, fclose f (fprintfs f [Fprintf ''</svg>\<newline>'' []] s))
      | None \<Rightarrow> (output, s))\<close>

subsection \<open>Optical illusion 1: circles of squares\<close>

text \<open>The number of squares, line 117:
  \<^verbatim>\<open>const size_t n = (size_t)ceil((2*PI*r)/(1.5f*sw)) & 0xFFFFFFFE;\<close>
  The argument of \<^verbatim>\<open>ceil\<close> is \<open>squares_quotient\<close>. The mask is an
  \<^verbatim>\<open>unsigned int\<close> literal, zero-extended to \<^verbatim>\<open>size_t\<close>.\<close>

definition squares_quotient :: "cfloat \<Rightarrow> size_t \<Rightarrow> cfloat" where
  "squares_quotient r sw = fdiv (fmul (fmul (Finite 2) PI) r) (fmul (Finite 1.5) (float_of_size sw))"

definition squares_n :: "cfloat \<Rightarrow> size_t \<Rightarrow> size_t option" where
  "squares_n r sw =
     map_option (\<lambda>c. c AND 0xFFFFFFFE) (size_of_float (fceil (squares_quotient r sw)))"

text \<open>The body of the loop of DrawCircleOfSquares, for square \<open>i\<close> at angle \<open>theta\<close>.\<close>

definition square_body ::
  "size_t \<Rightarrow> size_t \<Rightarrow> cfloat \<Rightarrow> size_t \<Rightarrow> bool \<Rightarrow> size_t \<Rightarrow> cfloat \<Rightarrow> printf_call list" where
  \<open>square_body cx cy r sw parity i theta =
     (let x = fmul r (cosf theta);
          y = fmul r (sinf theta);
          phi = fadd (Finite (12 * (if parity then 1 else - 1)))
                  (fdiv (fmul (Finite 180) theta) PI)
      in [Fprintf ''<g transform="translate(%0.1f %0.1f)''
            [FL (fadd x (float_of_size (sw div 2))), FL (fadd y (float_of_size (sw div 2)))],
          Fprintf ''rotate(%0.1f %lu %lu)">'' [FL phi, LU cx, LU cy],
          Fprintf ''<rect width="%lu" height="%lu" '' [LU sw, LU sw],
          (if i AND 1 \<noteq> 0 then Fprintf ''class="b"'' [] else Fprintf ''class="w"'' []),
          Fprintf ''/>'' [],
          Fprintf ''</g>\<newline>'' []])\<close>

text \<open>The loop \<^verbatim>\<open>for(size_t i=0; i<n; i++)\<close> of DrawCircleOfSquares, from index \<open>i\<close>
  and angle \<open>theta\<close> on.\<close>

function squares_loop ::
  "size_t \<Rightarrow> size_t \<Rightarrow> cfloat \<Rightarrow> size_t \<Rightarrow> bool \<Rightarrow> size_t \<Rightarrow> cfloat \<Rightarrow> size_t \<Rightarrow> cfloat
     \<Rightarrow> printf_call list" where
  "squares_loop cx cy r sw parity n dtheta i theta =
     (if i < n
      then square_body cx cy r sw parity i theta
             @ squares_loop cx cy r sw parity n dtheta (i + 1) (fadd theta dtheta)
      else [])"
  by pat_completeness auto
termination
proof (relation "measure (\<lambda>(cx, cy, r, sw, parity, n, dtheta, i, theta). unat n - unat i)")
  fix n i :: size_t
  assume "i < n"
  then have below: "unat i < unat n"
    by (simp add: word_less_nat_alt)
  moreover have "unat n < 2 ^ 64"
    using unsigned_less [of n] by simp
  ultimately have "unat (i + 1) = unat i + 1"
    using unat_add_lem [of i 1] by simp
  with below show "\<And>cx cy r sw parity dtheta theta.
      ((cx, cy, r, sw, parity, n, dtheta, i + 1, fadd theta dtheta),
       (cx, cy, r, sw, parity, n, dtheta, i, theta))
      \<in> measure (\<lambda>(cx, cy, r, sw, parity, n, dtheta, i, theta). unat n - unat i)"
    by simp
qed simp

declare squares_loop.simps [simp del]

text \<open>\<^verbatim>\<open>void DrawCircleOfSquares(FILE* output, size_t cx, size_t cy, float r, size_t sw,
  bool parity)\<close>: the calls of \<^verbatim>\<open>fprintf\<close> on \<^verbatim>\<open>output\<close>, or \<open>None\<close> when the
  cast to \<^verbatim>\<open>size_t\<close> is undefined.\<close>

definition DrawCircleOfSquares ::
  "size_t \<Rightarrow> size_t \<Rightarrow> cfloat \<Rightarrow> size_t \<Rightarrow> bool \<Rightarrow> printf_call list option" where
  "DrawCircleOfSquares cx cy r sw parity =
     (case squares_n r sw of
        None \<Rightarrow> None
      | Some n \<Rightarrow>
          (let dtheta = fdiv (fmul (Finite 2) PI) (float_of_size n);
               theta = Finite 0
           in Some (squares_loop cx cy r sw parity n dtheta 0 theta)))"

text \<open>The loop \<^verbatim>\<open>for(size_t i=0; i<n; i++)\<close> of OpticalIllusion1, from circle \<open>i\<close> on.\<close>

function circles_loop ::
  "size_t \<Rightarrow> size_t \<Rightarrow> cfloat \<Rightarrow> cfloat \<Rightarrow> size_t \<Rightarrow> size_t \<Rightarrow> size_t
     \<Rightarrow> printf_call list option" where
  "circles_loop cx cy r0 dr sw n i =
     (if i < n
      then (case DrawCircleOfSquares cx cy (fadd r0 (fmul (float_of_size i) dr)) sw
                   (i AND 1 \<noteq> 0) of
              None \<Rightarrow> None
            | Some ps \<Rightarrow> map_option ((@) ps) (circles_loop cx cy r0 dr sw n (i + 1)))
      else Some [])"
  by pat_completeness auto
termination
proof (relation "measure (\<lambda>(cx, cy, r0, dr, sw, n, i). unat n - unat i)")
  fix n i :: size_t
  assume "i < n"
  then have below: "unat i < unat n"
    by (simp add: word_less_nat_alt)
  moreover have "unat n < 2 ^ 64"
    using unsigned_less [of n] by simp
  ultimately have "unat (i + 1) = unat i + 1"
    using unat_add_lem [of i 1] by simp
  with below show "\<And>cx cy r0 dr sw x.
      ((cx, cy, r0, dr, sw, n, i + 1), (cx, cy, r0, dr, sw, n, i))
      \<in> measure (\<lambda>(cx, cy, r0, dr, sw, n, i). unat n - unat i)"
    by simp
qed simp

declare circles_loop.simps [simp del]

text \<open>\<^verbatim>\<open>void OpticalIllusion1(const std::string& fname, size_t w, size_t n, float r0,
  float dr, size_t sw, const char dark[], const char light[], const char bgclr[])\<close>.
  The result is the state the routine leaves, or \<open>None\<close> for undefined behaviour (a
  \<^verbatim>\<open>fprintf\<close> to a null stream, an undefined cast).\<close>

definition OpticalIllusion1 ::
  "sys \<Rightarrow> string \<Rightarrow> size_t \<Rightarrow> size_t \<Rightarrow> cfloat \<Rightarrow> cfloat \<Rightarrow> size_t \<Rightarrow> string \<Rightarrow> string
     \<Rightarrow> string \<Rightarrow> sys option" where
  \<open>OpticalIllusion1 s0 fname w n r0 dr sw dark light bgclr =
     (let cx = w div 2 - sw div 2;
          cy = cx
      in case OpenSVG s0 fname w w of
           (False, output, s1) \<Rightarrow> Some s1
         | (True, None, s1) \<Rightarrow> None
         | (True, Some f, s1) \<Rightarrow>
             (let s2 = fprintfs f
                    [Fprintf ''<style>'' [],
                     Fprintf ''rect{fill:none;stroke-width:3}'' [],
                     Fprintf ''rect.b{x:%lu;y:%lu;stroke:%s;}'' [LU cx, LU cy, S dark],
                     Fprintf ''rect.w{x:%lu;y:%lu;stroke:%s;}'' [LU cx, LU cy, S light],
                     Fprintf ''</style>\<newline>'' [],
                     Fprintf ''<rect width="%lu" height="%lu" '' [LU w, LU w],
                     Fprintf ''style="fill:%s"/>\<newline>'' [S bgclr]] s1
              in case circles_loop cx cy r0 dr sw n 0 of
                   None \<Rightarrow> None
                 | Some ps \<Rightarrow> Some (snd (CloseSVG (fprintfs f ps s2) (Some f)))))\<close>

subsection \<open>Optical illusion 2: circles of circles of ellipses\<close>

text \<open>\<^verbatim>\<open>void SelectEllipseColor(FILE* output, size_t i, bool parity)\<close>\<close>

definition SelectEllipseColor :: "size_t \<Rightarrow> bool \<Rightarrow> printf_call list" where
  \<open>SelectEllipseColor i parity =
     (let j = i mod 4
      in if (parity \<and> j = 0) \<or> (\<not> parity \<and> j = 2) then [Fprintf ''class="b"'' []]
         else if (parity \<and> j = 2) \<or> (\<not> parity \<and> j = 0) then [Fprintf ''class="w"'' []]
         else [])\<close>

text \<open>The body of the loop of DrawCircleOfEllipses up to the closing of the group, for
  ellipse \<open>i\<close> at angle \<open>theta\<close> with the current \<open>parity\<close>.\<close>

definition ellipse_body ::
  "size_t \<Rightarrow> size_t \<Rightarrow> cfloat \<Rightarrow> cfloat \<Rightarrow> cfloat \<Rightarrow> size_t \<Rightarrow> cfloat \<Rightarrow> bool
     \<Rightarrow> printf_call list" where
  \<open>ellipse_body cx cy r r0 r1 i theta parity =
     (let x = fmul r (cosf theta);
          y = fmul r (sinf theta);
          phi = fadd (Finite 90) (fdiv (fmul (Finite 180) theta) PI)
      in [Fprintf ''<g transform="translate(%0.1f %0.1f)'' [FL x, FL y],
          Fprintf ''rotate(%0.1f %lu %lu)">'' [FL phi, LU cx, LU cy],
          Fprintf ''<ellipse rx="%0.1f" ry="%0.1f" '' [FL r0, FL r1]]
         @ SelectEllipseColor i parity
         @ [Fprintf ''/>'' [],
            Fprintf ''</g>\<newline>'' []])\<close>

text \<open>The loop of DrawCircleOfEllipses from index \<open>i\<close> on; \<open>theta\<close> and \<open>parity\<close> are
  the variables the loop updates.\<close>

function ellipses_loop ::
  "size_t \<Rightarrow> size_t \<Rightarrow> cfloat \<Rightarrow> cfloat \<Rightarrow> cfloat \<Rightarrow> size_t \<Rightarrow> cfloat \<Rightarrow> size_t \<Rightarrow> size_t
     \<Rightarrow> cfloat \<Rightarrow> bool \<Rightarrow> printf_call list" where
  "ellipses_loop cx cy r r0 r1 n dtheta flip i theta parity =
     (if i < n
      then ellipse_body cx cy r r0 r1 i theta parity
             @ ellipses_loop cx cy r r0 r1 n dtheta flip (i + 1) (fadd theta dtheta)
                 (if i = flip then \<not> parity else parity)
      else [])"
  by pat_completeness auto
termination
proof (relation
    "measure (\<lambda>(cx, cy, r, r0, r1, n, dtheta, flip, i, theta, parity). unat n - unat i)")
  fix n i :: size_t
  assume "i < n"
  then have below: "unat i < unat n"
    by (simp add: word_less_nat_alt)
  moreover have "unat n < 2 ^ 64"
    using unsigned_less [of n] by simp
  ultimately have "unat (i + 1) = unat i + 1"
    using unat_add_lem [of i 1] by simp
  with below show "\<And>cx cy r r0 r1 dtheta flip theta parity.
      ((cx, cy, r, r0, r1, n, dtheta, flip, i + 1, fadd theta dtheta,
        if i = flip then \<not> parity else parity),
       (cx, cy, r, r0, r1, n, dtheta, flip, i, theta, parity))
      \<in> measure (\<lambda>(cx, cy, r, r0, r1, n, dtheta, flip, i, theta, parity). unat n - unat i)"
    by simp
qed simp

declare ellipses_loop.simps [simp del]

text \<open>\<^verbatim>\<open>void DrawCircleOfEllipses(FILE* output, size_t cx, size_t cy, float r, float r0,
  float r1, size_t n, float theta, float dtheta, bool parity, size_t flip=999999)\<close>.
  A call that leaves \<^verbatim>\<open>flip\<close> out passes \<open>999999\<close>.\<close>

definition DrawCircleOfEllipses ::
  "size_t \<Rightarrow> size_t \<Rightarrow> cfloat \<Rightarrow> cfloat \<Rightarrow> cfloat \<Rightarrow> size_t \<Rightarrow> cfloat \<Rightarrow> cfloat \<Rightarrow> bool
     \<Rightarrow> size_t \<Rightarrow> printf_call list" where
  "DrawCircleOfEllipses cx cy r r0 r1 n theta dtheta parity flip =
     ellipses_loop cx cy r r0 r1 n dtheta flip 0 theta parity"

text \<open>\<^verbatim>\<open>void DrawTripleCircle(FILE* output, size_t cx, size_t cy, float r, float r0,
  float r1, size_t n, bool flip=false)\<close>. The local \<^verbatim>\<open>n\<close> after \<^verbatim>\<open>n *= 2\<close> is
  \<open>n2\<close>.\<close>

definition DrawTripleCircle ::
  "size_t \<Rightarrow> size_t \<Rightarrow> cfloat \<Rightarrow> cfloat \<Rightarrow> cfloat \<Rightarrow> size_t \<Rightarrow> bool \<Rightarrow> printf_call list" where
  "DrawTripleCircle cx cy r r0 r1 n flip =
     (let dtheta = fdiv PI (float_of_size n);
          theta = fdiv (if flip then PI else fneg PI) (Finite 2);
          n2 = n * 2
      in DrawCircleOfEllipses cx cy r r0 r1 n2 theta dtheta True 999999
         @ DrawCircleOfEllipses cx cy (fsub r r1) r0 r1 n2
             (fadd theta dtheta) dtheta True (n2 div 2 - 1)
         @ DrawCircleOfEllipses cx cy (fadd r r1) r0 r1 n2
             (fadd theta dtheta) dtheta False (n2 div 2 - 2))"

text \<open>\<^verbatim>\<open>void OpticalIllusion2(const std::string& fname, size_t w, size_t n, float r,
  float r0, float r1, const char dark[], const char light[], const char bgclr[])\<close>.
  The literal \<^verbatim>\<open>0.8f\<close> denotes the binary32 number \<open>13421773 / 2 ^ 24\<close>.\<close>

definition OpticalIllusion2 ::
  "sys \<Rightarrow> string \<Rightarrow> size_t \<Rightarrow> size_t \<Rightarrow> cfloat \<Rightarrow> cfloat \<Rightarrow> cfloat \<Rightarrow> string \<Rightarrow> string
     \<Rightarrow> string \<Rightarrow> sys option" where
  \<open>OpticalIllusion2 s0 fname w n r r0 r1 dark light bgclr =
     (let cx = w div 2;
          cy = cx
      in case OpenSVG s0 fname w w of
           (False, output, s1) \<Rightarrow> Some s1
         | (True, None, s1) \<Rightarrow> None
         | (True, Some f, s1) \<Rightarrow>
             (let s2 = fprintfs f
                    [Fprintf ''<style>'' [],
                     Fprintf ''ellipse{fill:none;stroke-width:3}'' [],
                     Fprintf ''ellipse.b{cx:%lu;cy:%lu;stroke:none;fill:%s;}''
                       [LU cx, LU cy, S dark],
                     Fprintf ''ellipse.w{cx:%lu;cy:%lu;stroke:none;fill:%s;}''
                       [LU cx, LU cy, S light],
                     Fprintf ''</style>\<newline>'' [],
                     Fprintf ''<rect width="%lu" height="%lu" '' [LU w, LU w],
                     Fprintf ''style="fill:%s"/>\<newline>'' [S bgclr]] s1;
                  s3 = fprintfs f (DrawTripleCircle cx cy r r0 r1 36 False) s2;
                  s4 = fprintfs f
                         (DrawTripleCircle cx cy (fsub r (Finite 64))
                            (fmul (Finite (13421773 / 16777216)) r0)
                            (fmul (Finite (13421773 / 16777216)) r1) 36 True) s3
              in Some (snd (CloseSVG s4 (Some f)))))\<close>

subsection \<open>Main\<close>

text \<open>\<^verbatim>\<open>int main()\<close>: the value returned and the state left.\<close>

definition main :: "sys \<Rightarrow> (int \<times> sys) option" where
  "main s0 =
     (case OpticalIllusion1 s0 ''output1'' 800 4 (Finite 100) (Finite 72) 24
             ''black'' ''white'' ''gray'' of
        None \<Rightarrow> None
      | Some s1 \<Rightarrow>
     (case OpticalIllusion1 s1 ''output1a'' 800 4 (Finite 100) (Finite 72) 24
             ''blue'' ''yellow'' ''forestgreen'' of
        None \<Rightarrow> None
      | Some s2 \<Rightarrow>
     (case OpticalIllusion2 s2 ''output2'' 800 3 (Finite 300) (Finite 12) (Finite 6)
             ''black'' ''white'' ''gray'' of
        None \<Rightarrow> None
      | Some s3 \<Rightarrow>
     (case OpticalIllusion2 s3 ''output2a'' 800 3 (Finite 300) (Finite 12) (Finite 6)
             ''blue'' ''yellow'' ''forestgreen'' of
        None \<Rightarrow> None
      | Some s4 \<Rightarrow> Some (0, s4)))))"

subsection \<open>Notions for stating the properties\<close>

text \<open>The number of \<^verbatim>\<open>fprintf\<close> calls with a given format string in an output.\<close>

definition count_fmt :: "string \<Rightarrow> printf_call list \<Rightarrow> nat" where
  "count_fmt f ps = length (filter (\<lambda>p. fmt p = f) ps)"

text \<open>The value of the variable \<^verbatim>\<open>theta\<close> after \<open>k\<close> rounds of
  \<^verbatim>\<open>theta += dtheta\<close>.\<close>

primrec theta_at :: "cfloat \<Rightarrow> cfloat \<Rightarrow> nat \<Rightarrow> cfloat" where
  "theta_at theta dtheta 0 = theta"
| "theta_at theta dtheta (Suc k) = fadd (theta_at theta dtheta k) dtheta"

text \<open>A ring of ellipses as the specification describes it, slot by slot: slot \<open>k\<close> of
  \<open>n\<close> is drawn at its angle, with the color class that SelectEllipseColor gives for
  the parity \<open>par k\<close> in force at that slot.\<close>

definition ring_slots ::
  "size_t \<Rightarrow> size_t \<Rightarrow> cfloat \<Rightarrow> cfloat \<Rightarrow> cfloat \<Rightarrow> nat \<Rightarrow> cfloat \<Rightarrow> cfloat \<Rightarrow> (nat \<Rightarrow> bool)
     \<Rightarrow> printf_call list" where
  "ring_slots cx cy r r0 r1 n theta dtheta par =
     concat (map (\<lambda>k. ellipse_body cx cy r r0 r1 (of_nat k) (theta_at theta dtheta k) (par k))
               [0..<n])"

text \<open>Three states of the file system to try the routines on: an empty one where every
  file can be opened, one with an older \<^verbatim>\<open>t.svg\<close> where every file can be opened,
  and one with an older \<^verbatim>\<open>t.svg\<close> where no file can be.\<close>

definition empty_disk :: sys where
  "empty_disk = \<lparr>files = (\<lambda>name. None), can_open = (\<lambda>name. True), fclosed = []\<rparr>"

definition used_disk :: sys where
  \<open>used_disk =
     \<lparr>files = (\<lambda>name. if name = ''t.svg'' then Some [Fprintf ''old'' []] else None),
      can_open = (\<lambda>name. True), fclosed = [''u.svg'']\<rparr>\<close>

definition locked_disk :: sys where
  \<open>locked_disk =
     \<lparr>files = (\<lambda>name. if name = ''t.svg'' then Some [Fprintf ''old'' []] else None),
      can_open = (\<lambda>name. False), fclosed = [''u.svg'']\<rparr>\<close>

section \<open>Properties\<close>

subsection \<open>Arithmetic of \<^verbatim>\<open>size_t\<close>\<close>




lemma real_unat_pos: "sw \<noteq> 0 \<Longrightarrow> 0 < real (unat (sw :: size_t))"
  using unat_gt_0 [of sw] by (simp del: of_nat_unat)

lemma unat_inc: "unat (i + 1) = Suc (unat i)" if "i < n" for i n :: size_t
proof -
  have "unat i < unat n"
    using that by (simp add: word_less_nat_alt)
  moreover have "unat n < 2 ^ 64"
    using unsigned_less [of n] by simp
  ultimately show ?thesis
    using unat_add_lem [of i 1] by simp
qed

lemma word_mod4_iff: "(i :: size_t) mod 4 = of_nat k \<longleftrightarrow> unat i mod 4 = k" if "k < 4"
proof -
  have "unat (i mod 4) = unat i mod 4"
    by (simp add: unat_mod_distrib)
  moreover have "unat (of_nat k :: size_t) = k"
    using that by (simp add: unat_of_nat)
  ultimately show ?thesis
    by (metis word_unat_eq_iff)
qed

lemma mod4_cases: "(n::nat) mod 4 = 0 \<or> n mod 4 = 1 \<or> n mod 4 = 2 \<or> n mod 4 = 3"
  by arith

subsection \<open>The number of squares on a circle\<close>

lemma count_fmt_append: "count_fmt f (ps @ qs) = count_fmt f ps + count_fmt f qs"
  by (simp add: count_fmt_def)




lemma squares_quotient_Finite:
  assumes "sw \<noteq> 0"
  shows "squares_quotient (Finite r) sw =
    Finite (2 * (13176795 / 4194304) * r / (1.5 * real (unat sw)))"
  using real_unat_pos [OF assms]
  by (simp add: squares_quotient_def PI_def float_of_size_def)




text \<open>
  Claim C9: with radius \<open>0\<close> and a square side \<open>sw > 0\<close> the layout does not crash and
  emits no shape with a NaN rotation or away from the center. The ceiling is \<open>0\<close>, so the
  number of squares is \<open>0\<close>; the angular step \<open>2 * PI / 0\<close> is a floating-point
  division by zero, which yields \<open>+\<infinity>\<close> and does not trap; the loop body never runs, and
  the routine returns having emitted nothing at all.
\<close>

theorem DrawCircleOfSquares_radius_0:
  assumes "sw \<noteq> 0"
  shows "squares_n (Finite 0) sw = Some 0 \<and>
    fdiv (fmul (Finite 2) PI) (float_of_size 0) = PlusInf \<and>
    DrawCircleOfSquares cx cy (Finite 0) sw parity = Some []"
proof -
  have "squares_n (Finite 0) sw = Some 0"
    using assms by (simp add: squares_n_def squares_quotient_Finite)
  moreover have "fdiv (fmul (Finite 2) PI) (float_of_size 0) = PlusInf"
    by (simp add: PI_def float_of_size_def inf_of_sign_def)
  moreover have "squares_loop cx cy (Finite 0) sw parity 0 PlusInf 0 (Finite 0) = []"
    by (simp add: squares_loop.simps)
  ultimately show ?thesis
    by (simp add: DrawCircleOfSquares_def)
qed

theorem DrawCircleOfSquares_radius_0_witness:
  "(24 :: size_t) \<noteq> 0 \<and> squares_n (Finite 0) 24 = Some 0 \<and>
    fdiv (fmul (Finite 2) PI) (float_of_size 0) = PlusInf \<and>
    DrawCircleOfSquares 388 388 (Finite 0) 24 True = Some []"
  using DrawCircleOfSquares_radius_0 [of 24 388 388 True] by simp

subsection \<open>The color of an ellipse\<close>

text \<open>
  Claim C2: for every slot index \<open>i\<close>, with parity true SelectEllipseColor writes
  \<^verbatim>\<open>class="b"\<close> (Dark) exactly when \<open>i mod 4 = 0\<close> and \<^verbatim>\<open>class="w"\<close> (Light)
  exactly when \<open>i mod 4 = 2\<close>, and writes nothing (a gap) exactly when \<open>i mod 4\<close> is
  \<open>1\<close> or \<open>3\<close>; with parity false Dark and Light are swapped and the gaps are the same.
\<close>

theorem SelectEllipseColor_classes:
  \<open>(SelectEllipseColor i True = [Fprintf ''class="b"'' []] \<longleftrightarrow> unat i mod 4 = 0) \<and>
   (SelectEllipseColor i True = [Fprintf ''class="w"'' []] \<longleftrightarrow> unat i mod 4 = 2) \<and>
   (SelectEllipseColor i True = [] \<longleftrightarrow> unat i mod 4 = 1 \<or> unat i mod 4 = 3) \<and>
   (SelectEllipseColor i False = [Fprintf ''class="w"'' []] \<longleftrightarrow> unat i mod 4 = 0) \<and>
   (SelectEllipseColor i False = [Fprintf ''class="b"'' []] \<longleftrightarrow> unat i mod 4 = 2) \<and>
   (SelectEllipseColor i False = [] \<longleftrightarrow> unat i mod 4 = 1 \<or> unat i mod 4 = 3)\<close>
  using word_mod4_iff [of 0 i] word_mod4_iff [of 2 i] mod4_cases [of "unat i"]
  by (auto simp add: SelectEllipseColor_def Let_def)

theorem SelectEllipseColor_classes_witness:
  \<open>SelectEllipseColor 4 True = [Fprintf ''class="b"'' []] \<and>
   SelectEllipseColor 6 True = [Fprintf ''class="w"'' []] \<and>
   SelectEllipseColor 7 True = [] \<and>
   SelectEllipseColor 4 False = [Fprintf ''class="w"'' []] \<and>
   SelectEllipseColor 6 False = [Fprintf ''class="b"'' []] \<and>
   SelectEllipseColor 5 False = []\<close>
  using SelectEllipseColor_classes [of 4] SelectEllipseColor_classes [of 6]
    SelectEllipseColor_classes [of 7] SelectEllipseColor_classes [of 5]
  by simp

subsection \<open>The header of the document\<close>

text \<open>
  Claim C10: OpenSVG ignores its height \<open>h\<close>. For every width \<open>w\<close> and any two heights
  the result, the stream and the state are the same, and when the file can be opened the
  header it writes gives \<open>w\<close> for the width, for the height and for both sides of the
  viewBox.
\<close>

theorem OpenSVG_ignores_h:
  \<open>OpenSVG s fname w h = OpenSVG s fname w h' \<and>
   (can_open s (fname @ ''.svg'') \<longrightarrow>
      files (snd (snd (OpenSVG s fname w h))) (fname @ ''.svg'') =
        Some [Fprintf ''<?xml version="1.0" encoding="UTF-8"?>\<newline>'' [],
              Fprintf ''<svg width="%lu" height="%lu" '' [LU w, LU w],
              Fprintf ''viewBox="0 0 %lu %lu" '' [LU w, LU w],
              Fprintf ''xmlns="http://www.w3.org/2000/svg">\<newline>'' [],
              Fprintf ''<!-- Created by Ian Parberry -->\<newline>'' []])\<close>
  by (simp add: OpenSVG_def fopen_wt_def fprintfs_def Let_def)

theorem OpenSVG_ignores_h_witness:
  \<open>can_open empty_disk (''t'' @ ''.svg'') \<and>
   OpenSVG empty_disk ''t'' 800 600 = OpenSVG empty_disk ''t'' 800 100 \<and>
   files (snd (snd (OpenSVG empty_disk ''t'' 800 600))) (''t'' @ ''.svg'') =
     Some [Fprintf ''<?xml version="1.0" encoding="UTF-8"?>\<newline>'' [],
           Fprintf ''<svg width="%lu" height="%lu" '' [LU 800, LU 800],
           Fprintf ''viewBox="0 0 %lu %lu" '' [LU 800, LU 800],
           Fprintf ''xmlns="http://www.w3.org/2000/svg">\<newline>'' [],
           Fprintf ''<!-- Created by Ian Parberry -->\<newline>'' []]\<close>
proof -
  have opens: \<open>can_open empty_disk (''t'' @ ''.svg'')\<close>
    by (simp add: empty_disk_def)
  with OpenSVG_ignores_h [of empty_disk "''t''" 800 600 100] show ?thesis
    by blast
qed

subsection \<open>A circle of ellipses, slot by slot\<close>

lemma theta_at_shift: "theta_at (fadd theta dtheta) dtheta k = theta_at theta dtheta (Suc k)"
  by (induction k) simp_all

text \<open>The loop of DrawCircleOfEllipses draws slot \<open>k\<close> at the angle reached after
  \<open>k\<close> steps, with the parity inverted once the index \<open>flip\<close> has been passed.\<close>

lemma ellipses_loop_slots:
  "ellipses_loop cx cy r r0 r1 n dtheta flip i theta parity =
     concat (map (\<lambda>k. ellipse_body cx cy r r0 r1 (of_nat k) (theta_at theta dtheta (k - unat i))
                        (if unat i \<le> unat flip \<and> unat flip < k then \<not> parity else parity))
               [unat i..<unat n])"
proof (induction cx cy r r0 r1 n dtheta flip i theta parity rule: ellipses_loop.induct)
  case (1 cx cy r r0 r1 n dtheta flip i theta parity)
  show ?case
  proof (cases "i < n")
    case False
    then have "unat n \<le> unat i"
      by (simp add: word_less_nat_alt)
    with False show ?thesis
      by (simp add: ellipses_loop.simps [of cx cy r r0 r1 n dtheta flip i theta parity])
  next
    case True
    then have lt: "unat i < unat n"
      by (simp add: word_less_nat_alt)
    have inc: "unat (i + 1) = Suc (unat i)"
      using True by (rule unat_inc)
    have flip_iff: "i = flip \<longleftrightarrow> unat i = unat flip"
      by (simp add: word_unat_eq_iff)
    define p' where "p' = (if i = flip then \<not> parity else parity)"
    define F where "F = (\<lambda>k. ellipse_body cx cy r r0 r1 (of_nat k)
        (theta_at (fadd theta dtheta) dtheta (k - unat (i + 1)))
        (if unat (i + 1) \<le> unat flip \<and> unat flip < k then \<not> p' else p'))"
    define G where "G = (\<lambda>k. ellipse_body cx cy r r0 r1 (of_nat k)
        (theta_at theta dtheta (k - unat i))
        (if unat i \<le> unat flip \<and> unat flip < k then \<not> parity else parity))"
    have rest: "F k = G k" if "k \<in> set [Suc (unat i)..<unat n]" for k
    proof -
      from that have k: "unat i < k"
        by simp
      then have "k - unat i = Suc (k - Suc (unat i))"
        by simp
      then have "theta_at (fadd theta dtheta) dtheta (k - unat (i + 1)) =
          theta_at theta dtheta (k - unat i)"
        by (simp add: inc theta_at_shift)
      moreover have "(if unat (i + 1) \<le> unat flip \<and> unat flip < k then \<not> p' else p') =
          (if unat i \<le> unat flip \<and> unat flip < k then \<not> parity else parity)"
        using k by (auto simp add: inc flip_iff p'_def)
      ultimately show ?thesis
        by (simp only: F_def G_def)
    qed
    have first: "G (unat i) = ellipse_body cx cy r r0 r1 i theta parity"
      by (auto simp add: G_def)
    have "ellipses_loop cx cy r r0 r1 n dtheta flip i theta parity =
        ellipse_body cx cy r r0 r1 i theta parity
          @ ellipses_loop cx cy r r0 r1 n dtheta flip (i + 1) (fadd theta dtheta) p'"
      using True
      by (simp add: ellipses_loop.simps [of cx cy r r0 r1 n dtheta flip i theta parity] p'_def)
    also have "ellipses_loop cx cy r r0 r1 n dtheta flip (i + 1) (fadd theta dtheta) p' =
        concat (map F [unat (i + 1)..<unat n])"
      unfolding F_def p'_def using True by (rule "1.IH")
    also have "map F [unat (i + 1)..<unat n] = map G [Suc (unat i)..<unat n]"
      unfolding inc by (rule map_cong [OF refl]) (rule rest)
    finally have "ellipses_loop cx cy r r0 r1 n dtheta flip i theta parity =
        concat (map G [unat i..<unat n])"
      using lt by (simp add: upt_conv_Cons first)
    then show ?thesis
      by (simp only: G_def)
  qed
qed

lemma DrawCircleOfEllipses_slots:
  "DrawCircleOfEllipses cx cy r r0 r1 n theta dtheta parity flip =
     ring_slots cx cy r r0 r1 (unat n) theta dtheta
       (\<lambda>k. if unat flip < k then \<not> parity else parity)"
  by (simp add: DrawCircleOfEllipses_def ellipses_loop_slots ring_slots_def)

lemma unat_of_nat_mod4: "unat (of_nat k :: size_t) mod 4 = k mod 4"
proof -
  have "(4::nat) dvd 2 ^ 64"
    by simp
  then have "k mod 2 ^ 64 mod 4 = k mod 4"
    by (rule mod_mod_cancel)
  then show ?thesis
    by (simp add: unat_of_nat)
qed

lemma SelectEllipseColor_of_nat:
  \<open>SelectEllipseColor (of_nat k) parity =
     (if k mod 4 = 0 then [Fprintf (if parity then ''class="b"'' else ''class="w"'') []]
      else if k mod 4 = 2 then [Fprintf (if parity then ''class="w"'' else ''class="b"'') []]
      else [])\<close>
  using word_mod4_iff [of 0 "of_nat k"] word_mod4_iff [of 2 "of_nat k"]
  by (auto simp add: SelectEllipseColor_def Let_def unat_of_nat_mod4)

lemma ring_slots_0: "ring_slots cx cy r r0 r1 0 theta dtheta par = []"
  by (simp add: ring_slots_def)

lemma ring_slots_Suc:
  "ring_slots cx cy r r0 r1 (Suc n) theta dtheta par =
     ring_slots cx cy r r0 r1 n theta dtheta par
       @ ellipse_body cx cy r r0 r1 (of_nat n) (theta_at theta dtheta n) (par n)"
  by (simp add: ring_slots_def)


lemma count_ellipse_body:
  \<open>count_fmt ''<ellipse rx="%0.1f" ry="%0.1f" ''
     (ellipse_body cx cy r r0 r1 (of_nat k) theta parity) = 1\<close>
  by (simp add: ellipse_body_def count_fmt_def SelectEllipseColor_of_nat Let_def)

lemma count_class_body:
  \<open>count_fmt ''class="b"'' (ellipse_body cx cy r r0 r1 (of_nat k) theta parity)
     + count_fmt ''class="w"'' (ellipse_body cx cy r r0 r1 (of_nat k) theta parity) =
   (if even k then 1 else 0)\<close>
proof -
  have "even k \<longleftrightarrow> k mod 4 = 0 \<or> k mod 4 = 2"
    by presburger
  then show ?thesis
    by (simp add: ellipse_body_def count_fmt_def SelectEllipseColor_of_nat Let_def)
qed


lemma count_ellipse_ring:
  \<open>count_fmt ''<ellipse rx="%0.1f" ry="%0.1f" '' (ring_slots cx cy r r0 r1 n theta dtheta par) = n\<close>
  by (induction n) (simp_all add: ring_slots_0 ring_slots_Suc count_fmt_append count_ellipse_body,
      simp add: count_fmt_def)

lemma count_class_ring:
  \<open>count_fmt ''class="b"'' (ring_slots cx cy r r0 r1 (2 * m) theta dtheta par)
     + count_fmt ''class="w"'' (ring_slots cx cy r r0 r1 (2 * m) theta dtheta par) = m\<close>
proof (induction m)
  case 0
  show ?case
    by (simp add: ring_slots_0 count_fmt_def)
next
  case (Suc m)
  have "2 * Suc m = Suc (Suc (2 * m))"
    by simp
  then show ?case
    using Suc count_class_body [of cx cy r r0 r1 "2 * m" "theta_at theta dtheta (2 * m)" "par (2 * m)"]
      count_class_body [of cx cy r r0 r1 "Suc (2 * m)" "theta_at theta dtheta (Suc (2 * m))"
        "par (Suc (2 * m))"]
    by (simp add: ring_slots_Suc count_fmt_append del: of_nat_Suc of_nat_mult of_nat_add)
qed






lemma unat_double: "unat (m * 2) = 2 * unat m" if "unat m < 2 ^ 63" for m :: size_t
proof -
  have "unat m * unat (2 :: size_t) < 2 ^ LENGTH(64)"
    using that by simp
  then have "unat (m * 2) = unat m * unat (2 :: size_t)"
    by (simp only: unat_mult_lem)
  then show ?thesis
    by simp
qed




text \<open>
  Claim C3 says that a ring with visual count \<open>n\<close>, so \<open>2n\<close> slots, emits exactly
  \<open>n\<close> shapes and nothing for the \<open>n\<close> gap slots. The code writes the group and the
  \<^verbatim>\<open>ellipse\<close> element for every slot; in a gap slot only the class attribute is left
  out (the style sheet gives an ellipse without class no fill and no stroke). With visual
  count \<open>1\<close> two ellipse elements are written, the second one without class:
\<close>

theorem gap_slot_emits_ellipse_counterexample:
  \<open>map fmt (DrawCircleOfEllipses 400 400 (Finite 300) (Finite 12) (Finite 6) 2
     (Finite 0) (Finite 1) True 999999) =
   [''<g transform="translate(%0.1f %0.1f)'', ''rotate(%0.1f %lu %lu)">'',
    ''<ellipse rx="%0.1f" ry="%0.1f" '', ''class="b"'', ''/>'', ''</g>\<newline>'',
    ''<g transform="translate(%0.1f %0.1f)'', ''rotate(%0.1f %lu %lu)">'',
    ''<ellipse rx="%0.1f" ry="%0.1f" '', ''/>'', ''</g>\<newline>'']\<close>
  by (simp add: DrawCircleOfEllipses_def ellipses_loop.simps ellipse_body_def
      SelectEllipseColor_def Let_def)

text \<open>
  Claim C3 as amended: for every call of DrawCircleOfEllipses with visual count \<open>m\<close>, so
  \<open>2m\<close> slots (and \<open>2m\<close> a \<^verbatim>\<open>size_t\<close>), \<open>2m\<close> ellipse elements are emitted, one
  for each slot; exactly \<open>m\<close> of them carry a color class and the \<open>m\<close> others, the
  gaps, carry none, whatever the parity and the flip index.
\<close>

theorem ring_of_ellipses_counts:
  assumes "unat m < 2 ^ 63"
  shows \<open>count_fmt ''<ellipse rx="%0.1f" ry="%0.1f" ''
            (DrawCircleOfEllipses cx cy r r0 r1 (m * 2) theta dtheta parity flip) = 2 * unat m \<and>
         count_fmt ''class="b"''
            (DrawCircleOfEllipses cx cy r r0 r1 (m * 2) theta dtheta parity flip)
         + count_fmt ''class="w"''
            (DrawCircleOfEllipses cx cy r r0 r1 (m * 2) theta dtheta parity flip) = unat m\<close>
  by (simp only: DrawCircleOfEllipses_slots unat_double [OF assms] count_ellipse_ring
      count_class_ring simp_thms)

theorem ring_of_ellipses_counts_witness:
  \<open>unat (3 :: size_t) < 2 ^ 63 \<and>
   count_fmt ''<ellipse rx="%0.1f" ry="%0.1f" ''
     (DrawCircleOfEllipses 400 400 (Finite 300) (Finite 12) (Finite 6) (3 * 2)
        (Finite 0) (Finite 1) True 999999) = 2 * unat (3 :: size_t) \<and>
   count_fmt ''class="b"''
     (DrawCircleOfEllipses 400 400 (Finite 300) (Finite 12) (Finite 6) (3 * 2)
        (Finite 0) (Finite 1) True 999999)
   + count_fmt ''class="w"''
     (DrawCircleOfEllipses 400 400 (Finite 300) (Finite 12) (Finite 6) (3 * 2)
        (Finite 0) (Finite 1) True 999999) = unat (3 :: size_t)\<close>
proof -
  have small: "unat (3 :: size_t) < 2 ^ 63"
    by simp
  from ring_of_ellipses_counts [OF small] small show ?thesis
    by blast
qed

subsection \<open>Three concentric circles of ellipses\<close>









subsection \<open>Files that cannot be opened, and files that can\<close>

lemma OpenSVG_fails:
  \<open>\<not> can_open s (fname @ ''.svg'') \<Longrightarrow> OpenSVG s fname w h = (False, None, s)\<close>
  by (simp add: OpenSVG_def fopen_wt_def)

lemma OpticalIllusion1_returns:
  assumes "circles_loop (w div 2 - sw div 2) (w div 2 - sw div 2) r0 dr sw n 0 = Some ps"
  shows "\<exists>s'. OpticalIllusion1 s fname w n r0 dr sw dark light bgclr = Some s'"
  using assms by (simp add: OpticalIllusion1_def OpenSVG_def fopen_wt_def Let_def)

lemma OpticalIllusion2_returns:
  "\<exists>s'. OpticalIllusion2 s fname w n r r0 r1 dark light bgclr = Some s'"
  by (simp add: OpticalIllusion2_def OpenSVG_def fopen_wt_def Let_def)

lemma main_circles: "\<exists>ps. circles_loop 388 388 (Finite 100) (Finite 72) 24 4 0 = Some ps"
  by (simp add: circles_loop.simps DrawCircleOfSquares_def squares_n_def squares_quotient_def
      PI_def float_of_size_def)

lemma main_returns_0: "\<exists>s'. main s = Some (0, s')"
proof -
  have c: "circles_loop (800 div 2 - 24 div 2) (800 div 2 - 24 div 2) (Finite 100) (Finite 72)
      24 4 0 \<noteq> None"
    using main_circles by simp
  obtain s1 where s1: "OpticalIllusion1 s ''output1'' 800 4 (Finite 100) (Finite 72) 24
             ''black'' ''white'' ''gray'' = Some s1"
    using OpticalIllusion1_returns c by blast
  obtain s2 where s2: "OpticalIllusion1 s1 ''output1a'' 800 4 (Finite 100) (Finite 72) 24
             ''blue'' ''yellow'' ''forestgreen'' = Some s2"
    using OpticalIllusion1_returns c by blast
  obtain s3 where s3: "OpticalIllusion2 s2 ''output2'' 800 3 (Finite 300) (Finite 12) (Finite 6)
             ''black'' ''white'' ''gray'' = Some s3"
    using OpticalIllusion2_returns by blast
  obtain s4 where s4: "OpticalIllusion2 s3 ''output2a'' 800 3 (Finite 300) (Finite 12) (Finite 6)
             ''blue'' ''yellow'' ''forestgreen'' = Some s4"
    using OpticalIllusion2_returns by blast
  show ?thesis
    by (simp add: main_def s1 s2 s3 s4)
qed

text \<open>
  Claim C7: when the output file cannot be opened, OpticalIllusion1 and OpticalIllusion2
  emit nothing, close nothing and return normally (they return no value that could signal a
  failure): they leave the state as it was. And \<^verbatim>\<open>main\<close> returns 0 from every state,
  whichever of the four files can be opened.
\<close>

theorem open_failure_is_silent:
  \<open>(\<not> can_open s (fname @ ''.svg'') \<longrightarrow>
      OpticalIllusion1 s fname w n r0 dr sw dark light bgclr = Some s \<and>
      OpticalIllusion2 s fname w n r r0 r1 dark light bgclr = Some s) \<and>
   (\<exists>s'. main s = Some (0, s'))\<close>
  using main_returns_0 [of s]
  by (simp add: OpticalIllusion1_def OpticalIllusion2_def OpenSVG_fails)

theorem open_failure_is_silent_witness:
  \<open>\<not> can_open locked_disk (''t'' @ ''.svg'') \<and>
   OpticalIllusion1 locked_disk ''t'' 800 4 (Finite 100) (Finite 72) 24
     ''black'' ''white'' ''gray'' = Some locked_disk \<and>
   OpticalIllusion2 locked_disk ''t'' 800 3 (Finite 300) (Finite 12) (Finite 6)
     ''black'' ''white'' ''gray'' = Some locked_disk \<and>
   main locked_disk = Some (0, locked_disk)\<close>
proof -
  have closed: \<open>\<not> can_open locked_disk name\<close> for name
    by (simp add: locked_disk_def)
  have \<open>main locked_disk = Some (0, locked_disk)\<close>
    using open_failure_is_silent [of locked_disk]
    by (simp add: main_def closed)
  with closed open_failure_is_silent [of locked_disk "''t''"] show ?thesis
    by blast
qed

text \<open>
  Claim C8: the generation routines are deterministic. Two runs of OpticalIllusion1, or of
  OpticalIllusion2, with the same parameters, from any two states in which the file can be
  opened, leave the same contents in the file (the same calls of \<^verbatim>\<open>fprintf\<close> with the
  same arguments, hence the same bytes), whatever the file held before; both runs of
  OpticalIllusion1 return or neither does, and OpticalIllusion2 always returns.
\<close>

theorem illusions_deterministic:
  assumes \<open>can_open s (fname @ ''.svg'')\<close> and \<open>can_open t (fname @ ''.svg'')\<close>
  shows \<open>map_option (\<lambda>u. files u (fname @ ''.svg''))
            (OpticalIllusion1 s fname w n r0 dr sw dark light bgclr) =
          map_option (\<lambda>u. files u (fname @ ''.svg''))
            (OpticalIllusion1 t fname w n r0 dr sw dark light bgclr) \<and>
         (\<exists>doc. map_option (\<lambda>u. files u (fname @ ''.svg''))
                  (OpticalIllusion2 s fname w n r ra rb dark light bgclr) = Some (Some doc) \<and>
                map_option (\<lambda>u. files u (fname @ ''.svg''))
                  (OpticalIllusion2 t fname w n r ra rb dark light bgclr) = Some (Some doc))\<close>
  using assms
  by (simp add: OpticalIllusion1_def OpticalIllusion2_def OpenSVG_def fopen_wt_def fprintfs_def
      CloseSVG_def fclose_def Let_def split: option.splits)

text \<open>The first call of \<^verbatim>\<open>main\<close>, writing \<^verbatim>\<open>t.svg\<close>, from the empty state and
  from a state where the file exists already: both runs return.\<close>

theorem illusions_deterministic_witness:
  \<open>can_open empty_disk (''t'' @ ''.svg'') \<and> can_open used_disk (''t'' @ ''.svg'') \<and>
   OpticalIllusion1 empty_disk ''t'' 800 4 (Finite 100) (Finite 72) 24
     ''black'' ''white'' ''gray'' \<noteq> None \<and>
   map_option (\<lambda>u. files u (''t'' @ ''.svg''))
     (OpticalIllusion1 empty_disk ''t'' 800 4 (Finite 100) (Finite 72) 24
        ''black'' ''white'' ''gray'') =
   map_option (\<lambda>u. files u (''t'' @ ''.svg''))
     (OpticalIllusion1 used_disk ''t'' 800 4 (Finite 100) (Finite 72) 24
        ''black'' ''white'' ''gray'') \<and>
   (\<exists>doc. map_option (\<lambda>u. files u (''t'' @ ''.svg''))
            (OpticalIllusion2 empty_disk ''t'' 800 4 (Finite 300) (Finite 12) (Finite 6)
               ''black'' ''white'' ''gray'') = Some (Some doc) \<and>
          map_option (\<lambda>u. files u (''t'' @ ''.svg''))
            (OpticalIllusion2 used_disk ''t'' 800 4 (Finite 300) (Finite 12) (Finite 6)
               ''black'' ''white'' ''gray'') = Some (Some doc))\<close>
proof -
  have opens: \<open>can_open empty_disk (''t'' @ ''.svg'')\<close> \<open>can_open used_disk (''t'' @ ''.svg'')\<close>
    by (simp_all add: empty_disk_def used_disk_def)
  have "circles_loop (800 div 2 - 24 div 2) (800 div 2 - 24 div 2) (Finite 100) (Finite 72)
      24 4 0 \<noteq> None"
    using main_circles by simp
  then have returns: \<open>OpticalIllusion1 empty_disk ''t'' 800 4 (Finite 100) (Finite 72) 24
      ''black'' ''white'' ''gray'' \<noteq> None\<close>
    using OpticalIllusion1_returns [of 800 24 "Finite 100" "Finite 72" 4 _ empty_disk]
    by fastforce
  from illusions_deterministic [OF opens, of 800 4 "Finite 100" "Finite 72" 24
      "''black''" "''white''" "''gray''" "Finite 300" "Finite 12" "Finite 6"] opens returns
  show ?thesis
    by blast
qed

end
